theory Spec2Isabelle
  imports Main "HOL-Library.Word" "HOL-Library.Monad_Syntax" "HOL-Library.Signed_Division"
begin

unbundle bit_operations_syntax

section \<open>The IS31FL3741 LED strip driver (app/drivers/led_strip/is31fl3741/is31fl3741.c)\<close>

subsection \<open>Machine types and constants\<close>

text \<open>
  The driver is built for 32-bit microcontrollers: \<open>size_t\<close> is an unsigned 32-bit
  integer and \<open>int\<close> a signed 32-bit one. Return codes are kept as mathematical
  integers; only \<open>0\<close> and the negated errno values occur.
\<close>

type_synonym uint8_t = "8 word"
type_synonym uint16_t = "16 word"
type_synonym uint32_t = "32 word"
type_synonym size_t = "32 word"
type_synonym c_int = "32 word"

definition IS31FL3741_BUFFER_SIZE :: size_t where
  "IS31FL3741_BUFFER_SIZE = 39 * 9"

definition IS31FL3741_BUFFER_PAGE_BREAK :: size_t where
  "IS31FL3741_BUFFER_PAGE_BREAK = 0xb4"

definition IS31FL3741_REG_PS :: uint8_t where
  "IS31FL3741_REG_PS = 0xfd"

definition IS31FL3741_REG_PSWL :: uint8_t where
  "IS31FL3741_REG_PSWL = 0xfe"

definition IS31FL3741_PSWL_ENABLE :: uint8_t where
  "IS31FL3741_PSWL_ENABLE = 0xc5"

definition IS31FL3741_PAGE_PWM_A :: uint8_t where
  "IS31FL3741_PAGE_PWM_A = 0x00"

definition IS31FL3741_PAGE_PWM_B :: uint8_t where
  "IS31FL3741_PAGE_PWM_B = 0x01"

definition IS31FL3741_PAGE_SCALING_A :: uint8_t where
  "IS31FL3741_PAGE_SCALING_A = 0x02"

definition IS31FL3741_PAGE_SCALING_B :: uint8_t where
  "IS31FL3741_PAGE_SCALING_B = 0x03"

definition IS31FL3741_PAGE_FUNCTION :: uint8_t where
  "IS31FL3741_PAGE_FUNCTION = 0x04"

text \<open>
  The errno values and the GPIO output flag come from the operating system's headers,
  which are not part of the driver; they are given their usual values. No property below
  depends on the particular numbers, only on their being non-zero and distinct.
\<close>

definition EIO :: int where
  "EIO = 5"

definition ENOMEM :: int where
  "ENOMEM = 12"

definition ENODEV :: int where
  "ENODEV = 19"

definition GPIO_OUTPUT :: uint32_t where
  "GPIO_OUTPUT = push_bit 9 1"

definition INT_MAX :: nat where
  "INT_MAX = 2 ^ 31 - 1"

subsection \<open>Data model\<close>

text \<open>A device handle is a pointer to a bound device; \<open>None\<close> is the null pointer.\<close>

type_synonym handle = "string option"

record is31fl3741_config =
  bus :: string
  reg :: int
  label :: string
  sdb_port :: string
  sdb_pin :: uint8_t
  sdb_flags :: uint8_t
  px_buffer_size :: size_t
  gcc :: uint8_t
  sws :: uint8_t
  rgb_map :: "uint16_t list"
  gamma :: "uint8_t list"
  scaling_red :: uint8_t
  scaling_blue :: uint8_t
  scaling_green :: uint8_t

record is31fl3741_data =
  i2c :: handle
  gpio :: handle
  px_buffer :: "uint8_t list"

record device =
  config :: is31fl3741_config
  data :: is31fl3741_data

record led_rgb =
  r :: uint8_t
  g :: uint8_t
  b :: uint8_t

subsection \<open>The hardware the driver calls into\<close>

text \<open>
  The bus and pin primitives are external. Each call is an \<open>hw_op\<close> carrying the
  arguments the driver passed; the world answers with a return code that may depend on
  everything that happened before, and records the call together with its answer.
  A burst write carries the bytes that the primitive reads from the caller's buffer.
\<close>

datatype hw_op =
    I2c_reg_write_byte handle int uint8_t uint8_t
  | I2c_burst_write handle int uint8_t "uint8_t list"
  | Gpio_pin_configure handle uint8_t uint32_t
  | Gpio_pin_set handle uint8_t int

type_synonym event = "hw_op \<times> int"

record world =
  devices :: "string list"
  respond :: "event list \<Rightarrow> hw_op \<Rightarrow> int"
  trace :: "event list"

definition hw_call :: "hw_op \<Rightarrow> world \<Rightarrow> int \<times> world" where
  "hw_call op w =
     (let rc = respond w (trace w) op
      in (rc, w\<lparr>trace := trace w @ [(op, rc)]\<rparr>))"

definition device_get_binding :: "string \<Rightarrow> world \<Rightarrow> handle" where
  "device_get_binding name w = (if name \<in> set (devices w) then Some name else None)"

text \<open>
  Array accesses: an index outside the array is undefined behaviour in C, which the
  model reports as \<open>None\<close>.
\<close>

definition load :: "'a list \<Rightarrow> nat \<Rightarrow> 'a option" where
  "load xs i = (if i < length xs then Some (xs ! i) else None)"

definition store :: "'a list \<Rightarrow> nat \<Rightarrow> 'a \<Rightarrow> 'a list option" where
  "store xs i v = (if i < length xs then Some (xs[i := v]) else None)"

text \<open>
  \<open>size_mul_overflow\<close> of the operating system's math helpers: the wrapped product and
  whether the exact product does not fit.
\<close>

definition size_mul_overflow :: "size_t \<Rightarrow> size_t \<Rightarrow> bool \<times> size_t" where
  "size_mul_overflow x y = (2 ^ 32 \<le> unat x * unat y, x * y)"

subsection \<open>Register access and page selection\<close>

definition is31fl3741_reg_write :: "device \<Rightarrow> uint8_t \<Rightarrow> uint8_t \<Rightarrow> world \<Rightarrow> int \<times> world" where
  "is31fl3741_reg_write dev addr val w =
     (let (rc, w') = hw_call (I2c_reg_write_byte (i2c (data dev)) (reg (config dev)) addr val) w
      in if rc \<noteq> 0 then (- EIO, w') else (0, w'))"

text \<open>
  \<open>buffer\<close> is the memory from the pointer passed on to the end of the array it points
  into; the bus primitive reads \<open>num_bytes\<close> bytes of it.
\<close>

definition is31fl3741_reg_burst_write ::
    "device \<Rightarrow> uint8_t \<Rightarrow> uint8_t list \<Rightarrow> size_t \<Rightarrow> world \<Rightarrow> (int \<times> world) option" where
  "is31fl3741_reg_burst_write dev start_addr buffer num_bytes w =
     (if length buffer < unat num_bytes then None
      else
        let (rc, w') = hw_call (I2c_burst_write (i2c (data dev)) (reg (config dev)) start_addr
                                  (take (unat num_bytes) buffer)) w
        in if rc \<noteq> 0 then Some (- EIO, w') else Some (0, w'))"

definition is31fl3741_set_page :: "device \<Rightarrow> uint8_t \<Rightarrow> world \<Rightarrow> int \<times> world" where
  "is31fl3741_set_page dev page_addr w =
     (let (r1, w1) = is31fl3741_reg_write dev IS31FL3741_REG_PSWL IS31FL3741_PSWL_ENABLE w
      in if r1 \<noteq> 0 then (- EIO, w1)
         else
           let (r2, w2) = is31fl3741_reg_write dev IS31FL3741_REG_PS page_addr w1
           in if r2 \<noteq> 0 then (- EIO, w2) else (0, w2))"

definition num_pixels_ok :: "is31fl3741_config \<Rightarrow> size_t \<Rightarrow> bool" where
  "num_pixels_ok cfg num_pixels =
     (let (overflow, num_bytes) = size_mul_overflow num_pixels 3
      in \<not> overflow \<and> num_bytes \<le> px_buffer_size cfg)"

subsection \<open>Updating raw channels\<close>

text \<open>
  The driver functions return the C return code together with the device and the world
  as they are left; \<open>None\<close> stands for an access outside an array.
\<close>

definition is31fl3741_strip_update_channels ::
    "device \<Rightarrow> uint8_t list \<Rightarrow> size_t \<Rightarrow> world \<Rightarrow> (int \<times> device \<times> world) option" where
  "is31fl3741_strip_update_channels dev channels num_channels w =
     (if px_buffer_size (config dev) < num_channels then Some (- ENOMEM, dev, w)
      else
        let (_, w1) = is31fl3741_set_page dev IS31FL3741_PAGE_PWM_A w
        in do {
          (result, w2) \<leftarrow> is31fl3741_reg_burst_write dev 0x00 channels
                             (if num_channels \<le> IS31FL3741_BUFFER_PAGE_BREAK then num_channels
                              else IS31FL3741_BUFFER_PAGE_BREAK) w1;
          if result \<noteq> 0 \<or> num_channels \<le> IS31FL3741_BUFFER_PAGE_BREAK
          then Some (result, dev, w2)
          else
            let (_, w3) = is31fl3741_set_page dev IS31FL3741_PAGE_PWM_B w2
            in do {
              (result', w4) \<leftarrow> is31fl3741_reg_burst_write dev 0x00 (drop 0xb4 channels)
                                  (num_channels - 0xb4) w3;
              Some (result', dev, w4)
            }
        })"

subsection \<open>Updating pixels through the channel map\<close>

text \<open>
  The \<open>while\<close> loop of \<open>is31fl3741_strip_update_rgb\<close>, with its counters \<open>i\<close> and
  \<open>j\<close> and the pixel buffer it writes. Each of the three statements reads the map at
  \<open>j\<close>, advances \<open>j\<close>, reads the gamma table at the pixel's intensity and stores the
  result in the buffer.
\<close>

function update_rgb_loop ::
    "is31fl3741_config \<Rightarrow> led_rgb list \<Rightarrow> size_t \<Rightarrow> size_t \<Rightarrow> size_t \<Rightarrow> uint8_t list
       \<Rightarrow> uint8_t list option" where
  "update_rgb_loop cfg pixels num_pixels i j buf =
     (if i < num_pixels then do {
        px \<leftarrow> load pixels (unat i);
        o1 \<leftarrow> load (rgb_map cfg) (unat j);
        v1 \<leftarrow> load (gamma cfg) (unat (r px));
        buf1 \<leftarrow> store buf (unat o1) v1;
        o2 \<leftarrow> load (rgb_map cfg) (unat (j + 1));
        v2 \<leftarrow> load (gamma cfg) (unat (g px));
        buf2 \<leftarrow> store buf1 (unat o2) v2;
        o3 \<leftarrow> load (rgb_map cfg) (unat (j + 2));
        v3 \<leftarrow> load (gamma cfg) (unat (b px));
        buf3 \<leftarrow> store buf2 (unat o3) v3;
        update_rgb_loop cfg pixels num_pixels (i + 1) (j + 3) buf3
      }
      else Some buf)"
  by pat_completeness auto
termination
proof (relation "measure (\<lambda>(cfg, pixels, num_pixels, i, j, buf). unat num_pixels - unat i)",
    goal_cases)
  case 1
  show ?case by simp
next
  case (2 cfg pixels num_pixels i j buf)
  then have "unat i < unat num_pixels"
    by (simp add: word_less_nat_alt)
  moreover from this have "unat (i + 1) = unat i + 1"
    using unsigned_less [of num_pixels, where 'a = nat] by (simp add: unat_word_ariths)
  ultimately show ?case
    by simp
qed

declare update_rgb_loop.simps [simp del]

definition is31fl3741_strip_update_rgb ::
    "device \<Rightarrow> led_rgb list \<Rightarrow> size_t \<Rightarrow> world \<Rightarrow> (int \<times> device \<times> world) option" where
  "is31fl3741_strip_update_rgb dev pixels num_pixels w =
     (if \<not> num_pixels_ok (config dev) num_pixels then Some (- ENOMEM, dev, w)
      else do {
        buf \<leftarrow> update_rgb_loop (config dev) pixels num_pixels 0 0 (px_buffer (data dev));
        let dev' = dev\<lparr>data := (data dev)\<lparr>px_buffer := buf\<rparr>\<rparr>;
        is31fl3741_strip_update_channels dev' (px_buffer (data dev')) (px_buffer_size (config dev')) w
      })"

subsection \<open>Initialisation\<close>

text \<open>
  The loop that spreads the scaling values over the buffer. Its counter is a C \<open>int\<close>
  starting at 0 and growing by 3, kept here as its (non-negative) value; the comparison
  with the buffer size converts it to \<open>size_t\<close>, which does not change the value. Signed
  overflow of the counter is undefined behaviour, reported as \<open>None\<close> like the array
  accesses.
\<close>

function init_scaling_loop ::
    "is31fl3741_config \<Rightarrow> nat \<Rightarrow> uint8_t list \<Rightarrow> uint8_t list option" where
  "init_scaling_loop cfg i buf =
     (if i < unat (px_buffer_size cfg) then do {
        o1 \<leftarrow> load (rgb_map cfg) i;
        buf1 \<leftarrow> store buf (unat o1) (scaling_red cfg);
        o2 \<leftarrow> load (rgb_map cfg) (i + 1);
        buf2 \<leftarrow> store buf1 (unat o2) (scaling_green cfg);
        o3 \<leftarrow> load (rgb_map cfg) (i + 2);
        buf3 \<leftarrow> store buf2 (unat o3) (scaling_blue cfg);
        if INT_MAX < i + 3 then None else init_scaling_loop cfg (i + 3) buf3
      }
      else Some buf)"
  by pat_completeness auto
termination
  by (relation "measure (\<lambda>(cfg, i, buf). unat (px_buffer_size cfg) - i)") auto

text \<open>The loop that clears the buffer again; its counter is a \<open>size_t\<close>.\<close>

function init_zero_loop ::
    "is31fl3741_config \<Rightarrow> size_t \<Rightarrow> uint8_t list \<Rightarrow> uint8_t list option" where
  "init_zero_loop cfg i buf =
     (if i < px_buffer_size cfg then do {
        buf' \<leftarrow> store buf (unat i) 0;
        init_zero_loop cfg (i + 1) buf'
      }
      else Some buf)"
  by pat_completeness auto
termination
proof (relation "measure (\<lambda>(cfg, i, buf). unat (px_buffer_size cfg) - unat i)", goal_cases)
  case 1
  show ?case by simp
next
  case (2 cfg i buf)
  then have "unat i < unat (px_buffer_size cfg)"
    by (simp add: word_less_nat_alt)
  moreover from this have "unat (i + 1) = unat i + 1"
    using unsigned_less [of "px_buffer_size cfg", where 'a = nat]
    by (simp add: unat_word_ariths)
  ultimately show ?case
    by simp
qed

declare init_scaling_loop.simps [simp del]

declare init_zero_loop.simps [simp del]

text \<open>
  The value written to the operating-mode register: the switching setting shifted into
  the high nibble, the logic-level flag and the normal-operation flag, computed in
  \<open>int\<close> and cut to a byte when passed on.
\<close>

definition operation_mode :: "is31fl3741_config \<Rightarrow> uint8_t" where
  "operation_mode cfg =
     ucast (push_bit 4 (ucast (sws cfg) :: uint32_t) OR push_bit 3 0x01 OR 0x01)"

definition is31fl3741_init :: "device \<Rightarrow> world \<Rightarrow> (int \<times> device \<times> world) option" where
  "is31fl3741_init dev0 w0 =
     (let cfg = config dev0;
          dev1 = dev0\<lparr>data := (data dev0)\<lparr>i2c := device_get_binding (bus cfg) w0\<rparr>\<rparr>
      in if i2c (data dev1) = None then Some (- ENODEV, dev1, w0)
      else
        let dev = dev1\<lparr>data := (data dev1)\<lparr>gpio := device_get_binding (sdb_port cfg) w0\<rparr>\<rparr>
        in if gpio (data dev) = None then Some (- ENODEV, dev, w0)
        else
          let (_, w1) = hw_call (Gpio_pin_configure (gpio (data dev)) (sdb_pin cfg)
                                   (GPIO_OUTPUT OR ucast (sdb_flags cfg))) w0;
              (rc, w2) = hw_call (Gpio_pin_set (gpio (data dev)) (sdb_pin cfg) 1) w1
          in if rc \<noteq> 0 then Some (- EIO, dev, w2)
          else
            let (rc, w3) = is31fl3741_set_page dev IS31FL3741_PAGE_FUNCTION w2
            in if rc \<noteq> 0 then Some (- EIO, dev, w3)
            else
              let (_, w4) = is31fl3741_reg_write dev 0x3f 0xae w3;
                  (rc, w5) = is31fl3741_set_page dev IS31FL3741_PAGE_FUNCTION w4
              in if rc \<noteq> 0 then Some (- EIO, dev, w5)
              else
                let (_, w6) = is31fl3741_reg_write dev 0x00 (operation_mode cfg) w5;
                    (_, w7) = is31fl3741_reg_write dev 0x01 (gcc cfg) w6
                in do {
                  buf1 \<leftarrow> init_scaling_loop cfg 0 (px_buffer (data dev));
                  let (_, w8) = is31fl3741_set_page dev IS31FL3741_PAGE_SCALING_A w7;
                  (_, w9) \<leftarrow> is31fl3741_reg_burst_write dev 0x00 buf1 0xb4 w8;
                  let (_, w10) = is31fl3741_set_page dev IS31FL3741_PAGE_SCALING_B w9;
                  (_, w11) \<leftarrow> is31fl3741_reg_burst_write dev 0x00 (drop 0xb4 buf1) 0xab w10;
                  buf2 \<leftarrow> init_zero_loop cfg 0 buf1;
                  Some (0, dev\<lparr>data := (data dev)\<lparr>px_buffer := buf2\<rparr>\<rparr>, w11)
                })"

text \<open>
  The macro \<open>IS31FL3741_GCC\<close> over the two devicetree properties, which are
  non-negative \<open>int\<close> constants. The expression is evaluated in \<open>int\<close>: the products
  wrap around at 32 bits, read as two's complement, and the division rounds towards
  zero. The instantiation macro stores the result in the field \<open>gcc\<close>, a \<open>uint8_t\<close>,
  which keeps its low eight bits; that byte is what initialisation writes to the gain
  register.
\<close>

definition IS31FL3741_GCC :: "c_int \<Rightarrow> c_int \<Rightarrow> c_int" where
  "IS31FL3741_GCC r_ext led_max_current =
     word_of_int (sint (r_ext * led_max_current * 256 * 256) sdiv (383 * 255))"

definition gcc_initializer :: "c_int \<Rightarrow> c_int \<Rightarrow> uint8_t" where
  "gcc_initializer r_ext led_max_current = ucast (IS31FL3741_GCC r_ext led_max_current)"

subsection \<open>Describing what reached the bus\<close>

text \<open>
  The calls that the driver's helpers pass to the bus, and the shape of a page selection
  in the trace: the unlock write, followed by the page write when the unlock write
  succeeded. \<open>errno_of\<close> is the return code that the register helpers make of the
  primitive's return code.
\<close>

definition pswl_write :: "device \<Rightarrow> hw_op" where
  "pswl_write dev =
     I2c_reg_write_byte (i2c (data dev)) (reg (config dev)) IS31FL3741_REG_PSWL IS31FL3741_PSWL_ENABLE"

definition ps_write :: "device \<Rightarrow> uint8_t \<Rightarrow> hw_op" where
  "ps_write dev page = I2c_reg_write_byte (i2c (data dev)) (reg (config dev)) IS31FL3741_REG_PS page"

fun page_selection :: "device \<Rightarrow> uint8_t \<Rightarrow> event list \<Rightarrow> bool" where
  "page_selection dev page [(op1, rc1)] = (op1 = pswl_write dev \<and> rc1 \<noteq> 0)"
| "page_selection dev page [(op1, rc1), (op2, rc2)] =
     (op1 = pswl_write dev \<and> rc1 = 0 \<and> op2 = ps_write dev page)"
| "page_selection dev page es = False"

definition burst_write :: "device \<Rightarrow> uint8_t list \<Rightarrow> hw_op" where
  "burst_write dev bytes = I2c_burst_write (i2c (data dev)) (reg (config dev)) 0x00 bytes"

definition errno_of :: "int \<Rightarrow> int" where
  "errno_of rc = (if rc = 0 then 0 else - EIO)"

text \<open>
  The pixel update as the specification words it: pixel \<open>k\<close> takes the map entries
  \<open>3k\<close>, \<open>3k + 1\<close> and \<open>3k + 2\<close> as offsets and the gamma table's values of its red,
  green and blue intensities as bytes; the writes of all pixels, in order, are applied
  to the buffer.
\<close>

definition pixel_writes :: "is31fl3741_config \<Rightarrow> led_rgb list \<Rightarrow> nat \<Rightarrow> (nat \<times> uint8_t) list" where
  "pixel_writes cfg pixels k =
     [(unat (rgb_map cfg ! (3 * k)), gamma cfg ! unat (r (pixels ! k))),
      (unat (rgb_map cfg ! (3 * k + 1)), gamma cfg ! unat (g (pixels ! k))),
      (unat (rgb_map cfg ! (3 * k + 2)), gamma cfg ! unat (b (pixels ! k)))]"

definition mapped_writes :: "is31fl3741_config \<Rightarrow> led_rgb list \<Rightarrow> nat \<Rightarrow> (nat \<times> uint8_t) list" where
  "mapped_writes cfg pixels n = concat (map (pixel_writes cfg pixels) [0..<n])"

definition apply_writes :: "(nat \<times> 'a) list \<Rightarrow> 'a list \<Rightarrow> 'a list" where
  "apply_writes ws buf = fold (\<lambda>(off, v) xs. xs[off := v]) ws buf"

text \<open>
  The register writes proper among the events: every bus write except those to the two
  page-selection registers. \<open>bound_device\<close> is the device once initialisation has
  resolved the two handles.
\<close>

fun is_register_write :: "hw_op \<Rightarrow> bool" where
  "is_register_write (I2c_reg_write_byte h a addr v) =
     (addr \<noteq> IS31FL3741_REG_PS \<and> addr \<noteq> IS31FL3741_REG_PSWL)"
| "is_register_write (I2c_burst_write h a addr bytes) = True"
| "is_register_write (Gpio_pin_configure h pin flags) = False"
| "is_register_write (Gpio_pin_set h pin v) = False"

definition register_writes :: "event list \<Rightarrow> hw_op list" where
  "register_writes es = filter is_register_write (map fst es)"

definition register_write :: "device \<Rightarrow> uint8_t \<Rightarrow> uint8_t \<Rightarrow> hw_op" where
  "register_write dev addr v = I2c_reg_write_byte (i2c (data dev)) (reg (config dev)) addr v"

definition bound_device :: "device \<Rightarrow> device" where
  "bound_device dev =
     dev\<lparr>data := (data dev)\<lparr>i2c := Some (bus (config dev)), gpio := Some (sdb_port (config dev))\<rparr>\<rparr>"

subsection \<open>A concrete device\<close>

text \<open>
  One instance as the instantiation macro builds it: a buffer of
  \<open>IS31FL3741_BUFFER_SIZE\<close> bytes, a channel map and a gamma table that are both the
  identity, and the gain for a resistor value of 1 and a maximal current of 5. In \<open>example_device\<close> both
  handles are bound, as initialisation leaves them. The world \<open>scripted_world rcs\<close>
  answers the first calls with the return codes \<open>rcs\<close> and every later call with 0.
\<close>

definition example_config :: is31fl3741_config where
  "example_config =
     \<lparr>bus = ''I2C_0'', reg = 0x30, label = ''IS31FL3741'', sdb_port = ''GPIO_0'',
      sdb_pin = 27, sdb_flags = 0, px_buffer_size = IS31FL3741_BUFFER_SIZE,
      gcc = gcc_initializer 1 5, sws = 2,
      rgb_map = map of_nat [0..<351], gamma = map of_nat [0..<256],
      scaling_red = 0xff, scaling_blue = 0x80, scaling_green = 0x40\<rparr>"

definition example_device :: device where
  "example_device =
     \<lparr>config = example_config,
      data = \<lparr>i2c = Some ''I2C_0'', gpio = Some ''GPIO_0'', px_buffer = replicate 351 0\<rparr>\<rparr>"

definition scripted_world :: "int list \<Rightarrow> world" where
  "scripted_world rcs =
     \<lparr>devices = [''I2C_0'', ''GPIO_0''],
      respond = (\<lambda>h op. if length h < length rcs then rcs ! length h else 0),
      trace = []\<rparr>"

text \<open>
  The same device before initialisation, with no handle bound yet, and the outcome of an
  initialisation as the return code together with the return codes of the calls made.
\<close>

definition fresh_device :: device where
  "fresh_device =
     \<lparr>config = example_config,
      data = \<lparr>i2c = None, gpio = None, px_buffer = replicate 351 0\<rparr>\<rparr>"

definition init_outcome :: "device \<Rightarrow> world \<Rightarrow> (int \<times> int list) option" where
  "init_outcome dev w = map_option (\<lambda>(rc, dev', w'). (rc, map snd (trace w'))) (is31fl3741_init dev w)"

section \<open>Properties\<close>

text \<open>
  C8. For every buffer and every count larger than the capacity, updating the channels
  fails with the capacity error before any bus activity: nothing is added to the trace,
  so neither a page selection nor a burst write is issued.
\<close>

theorem update_channels_over_capacity:
  assumes "px_buffer_size (config dev) < num_channels"
  shows "is31fl3741_strip_update_channels dev channels num_channels w = Some (- ENOMEM, dev, w)"
  using assms by (simp add: is31fl3741_strip_update_channels_def)

theorem update_channels_over_capacity_witness:
  "px_buffer_size (config example_device) < 352 \<and>
   is31fl3741_strip_update_channels example_device [] 352 (scripted_world [])
     = Some (- ENOMEM, example_device, scripted_world [])"
proof -
  have h: "px_buffer_size (config example_device) < 352"
    by (simp add: example_device_def example_config_def IS31FL3741_BUFFER_SIZE_def)
  show ?thesis
    using h update_channels_over_capacity [OF h, of "[]" "scripted_world []"] by simp
qed

subsection \<open>The capacity check of the pixel update\<close>

lemma num_pixels_not_ok:
  assumes "2 ^ 32 \<le> unat n * 3 \<or> unat (px_buffer_size cfg) < unat n * 3"
  shows "\<not> num_pixels_ok cfg n"
proof (cases "2 ^ 32 \<le> unat n * 3")
  case True
  then show ?thesis
    by (simp add: num_pixels_ok_def size_mul_overflow_def)
next
  case False
  then have "unat (n * 3) = unat n * 3"
    by (simp add: unat_word_ariths)
  with False assms show ?thesis
    by (simp add: num_pixels_ok_def size_mul_overflow_def word_le_nat_alt)
qed

text \<open>
  C4. For every pixel count whose triple overflows \<open>size_t\<close> or exceeds the capacity,
  the pixel update fails with the capacity error and returns the device and the world as
  they were: no bus write is issued and the device buffer is not modified.
\<close>

theorem update_rgb_over_capacity:
  assumes "2 ^ 32 \<le> unat num_pixels * 3
           \<or> unat (px_buffer_size (config dev)) < unat num_pixels * 3"
  shows "is31fl3741_strip_update_rgb dev pixels num_pixels w = Some (- ENOMEM, dev, w)"
  using num_pixels_not_ok [OF assms] by (simp add: is31fl3741_strip_update_rgb_def)

theorem update_rgb_over_capacity_witness:
  "(2 ^ 32 \<le> unat (0x55555556 :: size_t) * 3
      \<or> unat (px_buffer_size (config example_device)) < unat (0x55555556 :: size_t) * 3) \<and>
   is31fl3741_strip_update_rgb example_device [] 0x55555556 (scripted_world [])
     = Some (- ENOMEM, example_device, scripted_world []) \<and>
   (2 ^ 32 \<le> unat (118 :: size_t) * 3
      \<or> unat (px_buffer_size (config example_device)) < unat (118 :: size_t) * 3) \<and>
   is31fl3741_strip_update_rgb example_device [] 118 (scripted_world [])
     = Some (- ENOMEM, example_device, scripted_world [])"
proof -
  have h1: "2 ^ 32 \<le> unat (0x55555556 :: size_t) * 3
      \<or> unat (px_buffer_size (config example_device)) < unat (0x55555556 :: size_t) * 3"
    by simp
  have h2: "2 ^ 32 \<le> unat (118 :: size_t) * 3
      \<or> unat (px_buffer_size (config example_device)) < unat (118 :: size_t) * 3"
    by (simp add: example_device_def example_config_def IS31FL3741_BUFFER_SIZE_def)
  show ?thesis
    using h1 h2 update_rgb_over_capacity [OF h1, of "[]" "scripted_world []"]
      update_rgb_over_capacity [OF h2, of "[]" "scripted_world []"]
    by simp
qed

subsection \<open>The gain register value\<close>

text \<open>
  C9. For non-negative resistor and maximal-current values whose product is below 32768,
  so that the 32-bit numerator does not overflow, the gain macro computes
  \<open>(resistor * max_current * 65536) / (383 * 255)\<close> in exact integer arithmetic, the
  quotient cut to an integer. The gain register value is that quotient modulo 256, the
  field being a byte: it is the quotient itself whenever the quotient is at most 255. For
  a resistor of 1 and a maximal current of 5 the register value is 3.
\<close>

theorem gcc_formula:
  fixes r_ext led_max_current :: c_int
  assumes "0 \<le> sint r_ext" and "0 \<le> sint led_max_current"
    and "sint r_ext * sint led_max_current < 32768"
  shows "sint (IS31FL3741_GCC r_ext led_max_current)
           = (sint r_ext * sint led_max_current * 65536) div (383 * 255)
         \<and> uint (gcc_initializer r_ext led_max_current)
           = (sint r_ext * sint led_max_current * 65536) div (383 * 255) mod 256
         \<and> ((sint r_ext * sint led_max_current * 65536) div (383 * 255) \<le> 255 \<longrightarrow>
              uint (gcc_initializer r_ext led_max_current)
                = (sint r_ext * sint led_max_current * 65536) div (383 * 255))
         \<and> gcc_initializer 1 5 = 3"
proof -
  define p where "p = sint r_ext * sint led_max_current"
  define q where "q = (p * 65536) div 97665"
  have p: "0 \<le> p" "p < 32768"
    using assms by (simp_all add: p_def)
  have "r_ext * led_max_current * 256 * 256 = word_of_int (p * 65536)"
    by (simp add: p_def)
  moreover have "signed_take_bit 31 (p * 65536) = p * 65536"
    using p by (intro signed_take_bit_int_eq_self) simp_all
  ultimately have numerator: "sint (r_ext * led_max_current * 256 * 256) = p * 65536"
    by (simp only: sint_sbintrunc') simp
  have "(p * 65536) sdiv 97665 = q"
    using p by (simp add: signed_divide_int_def sgn_if q_def)
  with numerator have macro: "IS31FL3741_GCC r_ext led_max_current = word_of_int q"
    by (simp add: IS31FL3741_GCC_def)
  have q: "0 \<le> q" "q < 2 ^ 31"
  proof -
    show "0 \<le> q"
      using p by (simp add: q_def pos_imp_zdiv_nonneg_iff)
    have "q \<le> p * 65536"
      using p unfolding q_def by linarith
    with p show "q < 2 ^ 31"
      by simp
  qed
  have "signed_take_bit 31 q = q"
    using q by (intro signed_take_bit_int_eq_self) simp_all
  then have macro_value: "sint (IS31FL3741_GCC r_ext led_max_current) = q"
    by (simp add: macro sint_sbintrunc')
  have "take_bit 32 q = q"
    using q by (intro take_bit_int_eq_self) simp_all
  then have stored: "uint (gcc_initializer r_ext led_max_current) = q mod 256"
    by (simp add: gcc_initializer_def macro unsigned_ucast_eq uint_word_of_int_eq
        take_bit_eq_mod)
  have small: "q mod 256 = q" if "q \<le> 255"
    using that q(1) by simp
  have at_1_5: "gcc_initializer 1 5 = 3"
    by (simp add: gcc_initializer_def IS31FL3741_GCC_def signed_divide_int_def)
  from macro_value stored small at_1_5 show ?thesis
    by (simp add: q_def p_def)
qed

theorem gcc_formula_witness:
  "0 \<le> sint (1 :: c_int) \<and> 0 \<le> sint (5 :: c_int)
   \<and> sint (1 :: c_int) * sint (5 :: c_int) < 32768
   \<and> sint (IS31FL3741_GCC 1 5) = 3 \<and> uint (gcc_initializer 1 5) = 3"
  using gcc_formula [of 1 5] by simp

text \<open>
  Outside that range the register value is not the quotient: at 20 and 30 the quotient is
  402 and the byte stored is 146, and at 10000 and 5 the numerator overflows and the
  macro's value is negative.
\<close>

theorem gcc_formula_counterexample:
  "uint (gcc_initializer 20 30) = 146
   \<and> uint (gcc_initializer 20 30) \<noteq> (20 * 30 * 65536) div (383 * 255)
   \<and> sint (IS31FL3741_GCC 10000 5) = - 10425
   \<and> sint (IS31FL3741_GCC 10000 5) \<noteq> (10000 * 5 * 65536) div (383 * 255)"
  by (simp add: gcc_initializer_def IS31FL3741_GCC_def signed_divide_int_def)

subsection \<open>What the register helpers do to the trace\<close>

lemma reg_write_run:
  "is31fl3741_reg_write dev addr v w =
     (errno_of (respond w (trace w) (I2c_reg_write_byte (i2c (data dev)) (reg (config dev)) addr v)),
      w\<lparr>trace := trace w @ [(I2c_reg_write_byte (i2c (data dev)) (reg (config dev)) addr v,
          respond w (trace w) (I2c_reg_write_byte (i2c (data dev)) (reg (config dev)) addr v))]\<rparr>)"
  by (simp add: is31fl3741_reg_write_def hw_call_def errno_of_def Let_def)

lemma set_page_run:
  "\<exists>sel rc. is31fl3741_set_page dev page w = (rc, w\<lparr>trace := trace w @ sel\<rparr>)
      \<and> page_selection dev page sel
      \<and> (rc = 0 \<longleftrightarrow> (\<forall>e \<in> set sel. snd e = 0)) \<and> (rc \<noteq> 0 \<longrightarrow> rc = - EIO)"
proof -
  let ?r1 = "respond w (trace w) (pswl_write dev)"
  show ?thesis
  proof (cases "?r1 = 0")
    case False
    then have "is31fl3741_set_page dev page w = (- EIO, w\<lparr>trace := trace w @ [(pswl_write dev, ?r1)]\<rparr>)"
      by (simp add: is31fl3741_set_page_def reg_write_run errno_of_def pswl_write_def EIO_def)
    with False show ?thesis
      by (intro exI [of _ "[(pswl_write dev, ?r1)]"] exI [of _ "- EIO"]) (simp add: EIO_def)
  next
    case True
    let ?r2 = "respond w (trace w @ [(pswl_write dev, 0)]) (ps_write dev page)"
    from True have "is31fl3741_set_page dev page w
        = (errno_of ?r2, w\<lparr>trace := trace w @ [(pswl_write dev, 0), (ps_write dev page, ?r2)]\<rparr>)"
      by (simp add: is31fl3741_set_page_def reg_write_run errno_of_def pswl_write_def
          ps_write_def EIO_def)
    then show ?thesis
      by (intro exI [of _ "[(pswl_write dev, 0), (ps_write dev page, ?r2)]"]
          exI [of _ "errno_of ?r2"]) (simp add: errno_of_def EIO_def)
  qed
qed

lemma burst_write_run:
  assumes "unat num_bytes \<le> length buffer"
  shows "is31fl3741_reg_burst_write dev 0x00 buffer num_bytes w =
      Some (errno_of (respond w (trace w) (burst_write dev (take (unat num_bytes) buffer))),
            w\<lparr>trace := trace w @ [(burst_write dev (take (unat num_bytes) buffer),
                respond w (trace w) (burst_write dev (take (unat num_bytes) buffer)))]\<rparr>)"
  using assms
  by (simp add: is31fl3741_reg_burst_write_def hw_call_def errno_of_def burst_write_def Let_def)

subsection \<open>Raw channel updates\<close>





lemma example_two_pages_runs:
  "is31fl3741_strip_update_channels example_device (replicate 351 7) 351 (scripted_world [0, 0, - 5])
       = Some (- EIO, example_device,
           (scripted_world [0, 0, - 5])\<lparr>trace :=
              [(pswl_write example_device, 0), (ps_write example_device IS31FL3741_PAGE_PWM_A, 0),
               (burst_write example_device (replicate 180 7), - 5)]\<rparr>)"
  "is31fl3741_strip_update_channels example_device (replicate 351 7) 351 (scripted_world [])
       = Some (0, example_device,
           (scripted_world [])\<lparr>trace :=
              [(pswl_write example_device, 0), (ps_write example_device IS31FL3741_PAGE_PWM_A, 0),
               (burst_write example_device (replicate 180 7), 0),
               (pswl_write example_device, 0), (ps_write example_device IS31FL3741_PAGE_PWM_B, 0),
               (burst_write example_device (replicate 171 7), 0)]\<rparr>)"
  by (simp_all add: is31fl3741_strip_update_channels_def is31fl3741_set_page_def
      is31fl3741_reg_write_def is31fl3741_reg_burst_write_def hw_call_def
      example_device_def example_config_def scripted_world_def
      IS31FL3741_BUFFER_SIZE_def IS31FL3741_BUFFER_PAGE_BREAK_def
      pswl_write_def ps_write_def burst_write_def EIO_def)


text \<open>
  C10. Updating the channels never changes the driver's own state: whatever the buffer
  argument and the count, the device (its pixel buffer, its handles and its
  configuration) is returned as it was passed in. The call returns whenever the buffer
  argument holds at least \<open>count\<close> bytes.
\<close>

theorem update_channels_frame:
  "(\<forall>rc dev' w'. is31fl3741_strip_update_channels dev channels num_channels w = Some (rc, dev', w')
       \<longrightarrow> dev' = dev)
   \<and> (unat num_channels \<le> length channels
       \<longrightarrow> is31fl3741_strip_update_channels dev channels num_channels w \<noteq> None)"
proof (intro conjI allI impI)
  fix rc dev' w'
  assume "is31fl3741_strip_update_channels dev channels num_channels w = Some (rc, dev', w')"
  then show "dev' = dev"
    by (auto simp: is31fl3741_strip_update_channels_def Let_def
        split: if_splits prod.splits Option.bind_splits)
next
  assume len: "unat num_channels \<le> length channels"
  show "is31fl3741_strip_update_channels dev channels num_channels w \<noteq> None"
  proof (cases "num_channels \<le> IS31FL3741_BUFFER_PAGE_BREAK")
    case True
    with len show ?thesis
      by (simp add: is31fl3741_strip_update_channels_def burst_write_run split: prod.splits)
  next
    case False
    then have big: "180 < unat num_channels"
      by (simp add: IS31FL3741_BUFFER_PAGE_BREAK_def word_le_nat_alt)
    then have "unat (num_channels - 0xb4) = unat num_channels - 180"
      by (simp add: unat_sub word_le_nat_alt)
    with len have "unat (num_channels - 0xb4) \<le> length (drop 0xb4 channels)"
      by simp
    moreover have "unat IS31FL3741_BUFFER_PAGE_BREAK \<le> length channels"
      using big len by (simp add: IS31FL3741_BUFFER_PAGE_BREAK_def)
    ultimately show ?thesis
      using False
      by (simp add: is31fl3741_strip_update_channels_def burst_write_run split: prod.splits)
  qed
qed

theorem update_channels_frame_witness:
  "unat (3 :: size_t) \<le> length [1, 2, 3 :: uint8_t]
   \<and> (\<exists>rc w'. is31fl3741_strip_update_channels example_device [1, 2, 3] 3 (scripted_world [])
          = Some (rc, example_device, w'))"
proof -
  have h: "unat (3 :: size_t) \<le> length [1, 2, 3 :: uint8_t]"
    by simp
  from update_channels_frame [of example_device "[1, 2, 3]" 3 "scripted_world []"] h
  show ?thesis
    by (cases "is31fl3741_strip_update_channels example_device [1, 2, 3] 3 (scripted_world [])")
      auto
qed

text \<open>
  C6. Not every error of a bus write during a channel update reaches the caller: the
  result of \<open>is31fl3741_set_page\<close> is dropped, so a failure of one of the two register
  writes of a page selection is lost. Here the unlock write of the page selection fails,
  the burst write is still issued and succeeds, and the call returns 0.
\<close>

theorem update_channels_drops_page_selection_error:
  "is31fl3741_strip_update_channels example_device [1, 2, 3] 3 (scripted_world [- 5])
     = Some (0, example_device,
         (scripted_world [- 5])\<lparr>trace :=
            [(pswl_write example_device, - 5), (burst_write example_device [1, 2, 3], 0)]\<rparr>)"
  by (simp add: is31fl3741_strip_update_channels_def is31fl3741_set_page_def
      is31fl3741_reg_write_def is31fl3741_reg_burst_write_def hw_call_def
      example_device_def example_config_def scripted_world_def
      IS31FL3741_BUFFER_SIZE_def IS31FL3741_BUFFER_PAGE_BREAK_def
      pswl_write_def ps_write_def burst_write_def EIO_def)

theorem update_channels_drops_page_selection_error_witness:
  "\<exists>dev' w'. is31fl3741_strip_update_channels example_device [1, 2, 3] 3 (scripted_world [- 5])
       = Some (0, dev', w')
     \<and> (pswl_write example_device, - 5) \<in> set (trace w')"
  using update_channels_drops_page_selection_error by simp

subsection \<open>The pixel update\<close>

lemma apply_writes_append:
  "apply_writes (ws @ ws') buf = apply_writes ws' (apply_writes ws buf)"
  by (simp add: apply_writes_def)

lemma length_apply_writes [simp]: "length (apply_writes ws buf) = length buf"
  by (induction ws arbitrary: buf) (auto simp: apply_writes_def)

lemma update_rgb_loop_run:
  assumes "unat i \<le> unat n" and "unat j = 3 * unat i"
    and "3 * unat n < 2 ^ 32"
    and "unat n \<le> length pixels"
    and "3 * unat n \<le> length (rgb_map cfg)"
    and "\<forall>k < 3 * unat n. unat (rgb_map cfg ! k) < length buf"
    and "256 \<le> length (gamma cfg)"
  shows "update_rgb_loop cfg pixels n i j buf =
           Some (apply_writes (concat (map (pixel_writes cfg pixels) [unat i..<unat n])) buf)"
  using assms
proof (induction "unat n - unat i" arbitrary: i j buf)
  case 0
  then have "\<not> i < n"
    by (simp add: word_less_nat_alt)
  moreover from 0 have "unat n \<le> unat i"
    by simp
  ultimately show ?case
    by (subst update_rgb_loop.simps) (simp add: apply_writes_def)
next
  case (Suc d)
  then have lt: "unat i < unat n"
    by simp
  then have less: "i < n"
    by (simp add: word_less_nat_alt)
  have i1: "unat (i + 1) = unat i + 1"
    using lt unsigned_less [of n, where 'a = nat] by (simp add: unat_word_ariths)
  have j3: "unat j + 3 \<le> 3 * unat n"
    using lt Suc.prems(2) by simp
  then have j_small: "unat j + 3 < 2 ^ 32"
    using Suc.prems(3) by simp
  have js: "unat (j + 1) = unat j + 1" "unat (j + 2) = unat j + 2" "unat (j + 3) = unat j + 3"
    using j_small by (simp_all add: unat_word_ariths)
  let ?px = "pixels ! unat i"
  let ?o1 = "unat (rgb_map cfg ! unat j)"
  let ?o2 = "unat (rgb_map cfg ! (unat j + 1))"
  let ?o3 = "unat (rgb_map cfg ! (unat j + 2))"
  have in_map: "unat j < length (rgb_map cfg)" "unat j + 1 < length (rgb_map cfg)"
      "unat j + 2 < length (rgb_map cfg)"
    using j3 Suc.prems(5) by simp_all
  have in_buf: "?o1 < length buf" "?o2 < length buf" "?o3 < length buf"
    using j3 Suc.prems(6) by simp_all
  have in_gamma: "unat (r ?px) < length (gamma cfg)" "unat (g ?px) < length (gamma cfg)"
      "unat (b ?px) < length (gamma cfg)"
    using Suc.prems(7) unsigned_less [of "r ?px", where 'a = nat]
      unsigned_less [of "g ?px", where 'a = nat] unsigned_less [of "b ?px", where 'a = nat]
    by simp_all
  have in_pixels: "unat i < length pixels"
    using lt Suc.prems(4) by simp
  let ?buf3 = "apply_writes (pixel_writes cfg pixels (unat i)) buf"
  have step: "update_rgb_loop cfg pixels n i j buf = update_rgb_loop cfg pixels n (i + 1) (j + 3) ?buf3"
    using less in_pixels in_map in_buf in_gamma
    by (subst update_rgb_loop.simps)
      (simp add: load_def store_def js pixel_writes_def apply_writes_def Suc.prems(2))
  have "update_rgb_loop cfg pixels n (i + 1) (j + 3) ?buf3 =
      Some (apply_writes (concat (map (pixel_writes cfg pixels) [unat (i + 1)..<unat n])) ?buf3)"
  proof (rule Suc.hyps(1))
    show "d = unat n - unat (i + 1)"
      using Suc.hyps(2) i1 by simp
    show "unat (i + 1) \<le> unat n"
      using lt i1 by simp
    show "unat (j + 3) = 3 * unat (i + 1)"
      using js i1 Suc.prems(2) by simp
    show "\<forall>k<3 * unat n. unat (rgb_map cfg ! k) < length ?buf3"
      using Suc.prems(6) by simp
  qed (use Suc.prems in simp_all)
  moreover have "[unat i..<unat n] = unat i # [unat (i + 1)..<unat n]"
    using lt i1 by (simp add: upt_conv_Cons)
  ultimately show ?case
    using step by (simp add: apply_writes_append)
qed


lemma mapped_writes_Suc:
  "mapped_writes cfg pixels (Suc n) = mapped_writes cfg pixels n @ pixel_writes cfg pixels n"
  by (simp add: mapped_writes_def)

lemma length_mapped_writes: "length (mapped_writes cfg pixels n) = 3 * n"
  by (induction n) (simp_all add: mapped_writes_Suc, simp_all add: mapped_writes_def pixel_writes_def)

lemma mapped_writes_nth:
  assumes "i < n" and "c < 3"
  shows "mapped_writes cfg pixels n ! (3 * i + c) = pixel_writes cfg pixels i ! c"
  using assms
proof (induction n)
  case 0
  then show ?case by simp
next
  case (Suc n)
  show ?case
  proof (cases "i < n")
    case True
    with Suc show ?thesis
      by (simp add: mapped_writes_Suc nth_append length_mapped_writes)
  next
    case False
    with Suc.prems have "i = n"
      by simp
    with Suc.prems show ?thesis
      by (simp add: mapped_writes_Suc nth_append length_mapped_writes)
  qed
qed

lemma apply_writes_untouched:
  "off \<notin> fst ` set ws \<Longrightarrow> apply_writes ws buf ! off = buf ! off"
  by (induction ws arbitrary: buf) (auto simp: apply_writes_def)

lemma apply_writes_distinct:
  assumes "distinct (map fst ws)" and "(off, v) \<in> set ws" and "off < length buf"
  shows "apply_writes ws buf ! off = v"
  using assms
proof (induction ws arbitrary: buf)
  case Nil
  then show ?case by simp
next
  case (Cons x ws)
  obtain off' v' where x: "x = (off', v')"
    by (cases x)
  have unfold: "apply_writes ((off', v') # ws) buf = apply_writes ws (buf[off' := v'])"
    by (simp add: apply_writes_def)
  show ?case
  proof (cases "(off, v) = x")
    case True
    with Cons.prems x have "off \<notin> fst ` set ws"
      by auto
    with True x Cons.prems(3) show ?thesis
      by (auto simp: unfold apply_writes_untouched)
  next
    case False
    with Cons.prems have "(off, v) \<in> set ws" "distinct (map fst ws)"
      by auto
    with Cons.IH [of "buf[off' := v']"] Cons.prems(3) show ?thesis
      by (simp add: unfold x)
  qed
qed

lemma num_pixels_ok_fits:
  assumes "3 * unat n \<le> unat (px_buffer_size cfg)"
  shows "num_pixels_ok cfg n"
proof -
  have "unat n * 3 < 2 ^ 32"
    using assms unsigned_less [of "px_buffer_size cfg", where 'a = nat] by simp
  moreover from this have "unat (n * 3) = unat n * 3"
    by (simp add: unat_word_ariths)
  ultimately show ?thesis
    using assms by (simp add: num_pixels_ok_def size_mul_overflow_def word_le_nat_alt)
qed

text \<open>
  C1. For every pixel sequence of length \<open>n\<close> with \<open>3n\<close> within the capacity (the
  pixel array holding \<open>n\<close> pixels, the first \<open>3n\<close> map entries being offsets inside the
  buffer, and the gamma table having its 256 entries), the pixel update performs exactly
  \<open>3n\<close> writes to the device buffer: for pixel \<open>i\<close> the gamma values of its red, green
  and blue intensities at the offsets given by map entries \<open>3i\<close>, \<open>3i + 1\<close>, \<open>3i + 2\<close>.
  Offsets outside the map entries used keep their bytes, and with distinct offsets every
  written byte is found in the buffer afterwards. The whole buffer is then handed to the
  channel update with the capacity as count.
\<close>

theorem update_rgb_maps_pixels:
  assumes "3 * unat num_pixels \<le> unat (px_buffer_size (config dev))"
    and "unat num_pixels \<le> length pixels"
    and "3 * unat num_pixels \<le> length (rgb_map (config dev))"
    and "\<forall>k < 3 * unat num_pixels. unat (rgb_map (config dev) ! k) < length (px_buffer (data dev))"
    and "256 \<le> length (gamma (config dev))"
  shows
    "let ws = mapped_writes (config dev) pixels (unat num_pixels);
         buf = apply_writes ws (px_buffer (data dev))
     in length ws = 3 * unat num_pixels
        \<and> (\<forall>i < unat num_pixels.
              ws ! (3 * i) = (unat (rgb_map (config dev) ! (3 * i)),
                              gamma (config dev) ! unat (r (pixels ! i)))
            \<and> ws ! (3 * i + 1) = (unat (rgb_map (config dev) ! (3 * i + 1)),
                                  gamma (config dev) ! unat (g (pixels ! i)))
            \<and> ws ! (3 * i + 2) = (unat (rgb_map (config dev) ! (3 * i + 2)),
                                  gamma (config dev) ! unat (b (pixels ! i))))
        \<and> (distinct (map fst ws) \<longrightarrow> (\<forall>(off, v) \<in> set ws. buf ! off = v))
        \<and> (\<forall>off. off \<notin> fst ` set ws \<longrightarrow> buf ! off = px_buffer (data dev) ! off)
        \<and> is31fl3741_strip_update_rgb dev pixels num_pixels w =
            is31fl3741_strip_update_channels (dev\<lparr>data := (data dev)\<lparr>px_buffer := buf\<rparr>\<rparr>) buf
              (px_buffer_size (config dev)) w"
proof -
  let ?ws = "mapped_writes (config dev) pixels (unat num_pixels)"
  let ?buf = "apply_writes ?ws (px_buffer (data dev))"
  have small: "3 * unat num_pixels < 2 ^ 32"
    using assms(1) unsigned_less [of "px_buffer_size (config dev)", where 'a = nat] by simp
  have "update_rgb_loop (config dev) pixels num_pixels 0 0 (px_buffer (data dev)) =
      Some (apply_writes (concat (map (pixel_writes (config dev) pixels) [unat (0 :: size_t)..<unat num_pixels]))
        (px_buffer (data dev)))"
    by (rule update_rgb_loop_run) (use assms small in simp_all)
  then have loop: "update_rgb_loop (config dev) pixels num_pixels 0 0 (px_buffer (data dev)) = Some ?buf"
    by (simp add: mapped_writes_def)
  have run: "is31fl3741_strip_update_rgb dev pixels num_pixels w =
      is31fl3741_strip_update_channels (dev\<lparr>data := (data dev)\<lparr>px_buffer := ?buf\<rparr>\<rparr>) ?buf
        (px_buffer_size (config dev)) w"
    using num_pixels_ok_fits [OF assms(1)] loop
    by (simp add: is31fl3741_strip_update_rgb_def)
  have nth: "\<forall>i < unat num_pixels.
              ?ws ! (3 * i) = (unat (rgb_map (config dev) ! (3 * i)),
                              gamma (config dev) ! unat (r (pixels ! i)))
            \<and> ?ws ! (3 * i + 1) = (unat (rgb_map (config dev) ! (3 * i + 1)),
                                  gamma (config dev) ! unat (g (pixels ! i)))
            \<and> ?ws ! (3 * i + 2) = (unat (rgb_map (config dev) ! (3 * i + 2)),
                                  gamma (config dev) ! unat (b (pixels ! i)))"
  proof (intro allI impI)
    fix i assume "i < unat num_pixels"
    from mapped_writes_nth [OF this, of 0] mapped_writes_nth [OF this, of 1]
      mapped_writes_nth [OF this, of 2]
    show "?ws ! (3 * i) = (unat (rgb_map (config dev) ! (3 * i)),
                              gamma (config dev) ! unat (r (pixels ! i)))
            \<and> ?ws ! (3 * i + 1) = (unat (rgb_map (config dev) ! (3 * i + 1)),
                                  gamma (config dev) ! unat (g (pixels ! i)))
            \<and> ?ws ! (3 * i + 2) = (unat (rgb_map (config dev) ! (3 * i + 2)),
                                  gamma (config dev) ! unat (b (pixels ! i)))"
      by (simp add: pixel_writes_def)
  qed
  have in_buf: "off < length (px_buffer (data dev))" if "(off, v) \<in> set ?ws" for off v
  proof -
    from that obtain k where k: "k < 3 * unat num_pixels" "?ws ! k = (off, v)"
      by (auto simp: in_set_conv_nth length_mapped_writes)
    define i c where "i = k div 3" and "c = k mod 3"
    then have ic: "k = 3 * i + c" "c < 3" "i < unat num_pixels"
      using k(1) by auto
    from mapped_writes_nth [OF ic(3) ic(2), of "config dev" pixels] k(2) ic(1)
    have "pixel_writes (config dev) pixels i ! c = (off, v)"
      by simp
    moreover from ic(2) have "c = 0 \<or> c = 1 \<or> c = 2"
      by auto
    ultimately have "off = unat (rgb_map (config dev) ! k)"
      using ic(1) by (auto simp: pixel_writes_def)
    with assms(4) k(1) show ?thesis
      by simp
  qed
  have distinct: "distinct (map fst ?ws) \<longrightarrow> (\<forall>(off, v) \<in> set ?ws. ?buf ! off = v)"
    using in_buf by (auto intro: apply_writes_distinct)
  have untouched: "\<forall>off. off \<notin> fst ` set ?ws \<longrightarrow> ?buf ! off = px_buffer (data dev) ! off"
    by (simp add: apply_writes_untouched)
  show ?thesis
    unfolding Let_def
    using length_mapped_writes [of "config dev" pixels "unat num_pixels"] nth distinct untouched run
    by (intro conjI)
qed

theorem update_rgb_maps_pixels_witness:
  "3 * unat (2 :: size_t) \<le> unat (px_buffer_size (config example_device))
   \<and> unat (2 :: size_t) \<le> length [\<lparr>r = 255, g = 128, b = 0\<rparr>, \<lparr>r = 1, g = 2, b = 3\<rparr>]
   \<and> 3 * unat (2 :: size_t) \<le> length (rgb_map (config example_device))
   \<and> list_all (\<lambda>x. unat x < length (px_buffer (data example_device)))
         (take (3 * unat (2 :: size_t)) (rgb_map (config example_device)))
   \<and> 256 \<le> length (gamma (config example_device))
   \<and> (let ws = mapped_writes (config example_device)
                  [\<lparr>r = 255, g = 128, b = 0\<rparr>, \<lparr>r = 1, g = 2, b = 3\<rparr>] (unat (2 :: size_t));
           buf = apply_writes ws (px_buffer (data example_device))
       in length ws = 3 * unat (2 :: size_t)
        \<and> is31fl3741_strip_update_rgb example_device
              [\<lparr>r = 255, g = 128, b = 0\<rparr>, \<lparr>r = 1, g = 2, b = 3\<rparr>] 2 (scripted_world []) =
            is31fl3741_strip_update_channels
              (example_device\<lparr>data := (data example_device)\<lparr>px_buffer := buf\<rparr>\<rparr>) buf
              (px_buffer_size (config example_device)) (scripted_world []))"
proof -
  have h1: "3 * unat (2 :: size_t) \<le> unat (px_buffer_size (config example_device))"
    by (simp add: example_device_def example_config_def IS31FL3741_BUFFER_SIZE_def)
  have h2: "unat (2 :: size_t) \<le> length [\<lparr>r = 255, g = 128, b = 0\<rparr>, \<lparr>r = 1, g = 2, b = 3\<rparr>]"
    by simp
  have h3: "3 * unat (2 :: size_t) \<le> length (rgb_map (config example_device))"
    by (simp add: example_device_def example_config_def)
  have h4: "\<forall>k < 3 * unat (2 :: size_t).
         unat (rgb_map (config example_device) ! k) < length (px_buffer (data example_device))"
    by (simp add: example_device_def example_config_def unat_of_nat)
  have h5: "256 \<le> length (gamma (config example_device))"
    by (simp add: example_device_def example_config_def)
  from update_rgb_maps_pixels [OF h1 h2 h3 h4 h5, of "scripted_world []"]
  have "let ws = mapped_writes (config example_device)
                  [\<lparr>r = 255, g = 128, b = 0\<rparr>, \<lparr>r = 1, g = 2, b = 3\<rparr>] (unat (2 :: size_t));
           buf = apply_writes ws (px_buffer (data example_device))
       in length ws = 3 * unat (2 :: size_t)
        \<and> is31fl3741_strip_update_rgb example_device
              [\<lparr>r = 255, g = 128, b = 0\<rparr>, \<lparr>r = 1, g = 2, b = 3\<rparr>] 2 (scripted_world []) =
            is31fl3741_strip_update_channels
              (example_device\<lparr>data := (data example_device)\<lparr>px_buffer := buf\<rparr>\<rparr>) buf
              (px_buffer_size (config example_device)) (scripted_world [])"
    unfolding Let_def by (elim conjE) (intro conjI)
  moreover have "list_all (\<lambda>x. unat x < length (px_buffer (data example_device)))
         (take (3 * unat (2 :: size_t)) (rgb_map (config example_device)))"
    by (simp add: example_device_def example_config_def list_all_iff unat_of_nat take_map)
  ultimately show ?thesis
    using h1 h2 h3 h5 by (intro conjI)
qed

subsection \<open>Initialisation\<close>

lemma init_zero_loop_run:
  assumes "unat i \<le> unat (px_buffer_size cfg)" and "unat (px_buffer_size cfg) \<le> length buf"
  shows "init_zero_loop cfg i buf =
           Some (take (unat i) buf @ replicate (unat (px_buffer_size cfg) - unat i) 0
                 @ drop (unat (px_buffer_size cfg)) buf)"
  using assms
proof (induction "unat (px_buffer_size cfg) - unat i" arbitrary: i buf)
  case 0
  then have "\<not> i < px_buffer_size cfg" and "unat i = unat (px_buffer_size cfg)"
    by (simp_all add: word_less_nat_alt)
  then show ?case
    by (subst init_zero_loop.simps) simp
next
  case (Suc d)
  then have lt: "unat i < unat (px_buffer_size cfg)"
    by simp
  then have less: "i < px_buffer_size cfg"
    by (simp add: word_less_nat_alt)
  have i1: "unat (i + 1) = unat i + 1"
    using lt unsigned_less [of "px_buffer_size cfg", where 'a = nat]
    by (simp add: unat_word_ariths)
  have in_buf: "unat i < length buf"
    using lt Suc.prems(2) by simp
  have step: "init_zero_loop cfg i buf = init_zero_loop cfg (i + 1) (buf[unat i := 0])"
    using less in_buf by (subst init_zero_loop.simps) (simp add: store_def)
  have "init_zero_loop cfg (i + 1) (buf[unat i := 0]) =
      Some (take (unat (i + 1)) (buf[unat i := 0])
            @ replicate (unat (px_buffer_size cfg) - unat (i + 1)) 0
            @ drop (unat (px_buffer_size cfg)) (buf[unat i := 0]))"
    using Suc.hyps(2) Suc.prems(2) lt i1 by (intro Suc.hyps(1)) simp_all
  moreover have "take (unat (i + 1)) (buf[unat i := 0]) = take (unat i) buf @ [0]"
    using in_buf by (simp add: i1 take_Suc_conv_app_nth)
  moreover have "drop (unat (px_buffer_size cfg)) (buf[unat i := 0])
      = drop (unat (px_buffer_size cfg)) buf"
    using lt by simp
  moreover have "replicate (unat (px_buffer_size cfg) - unat i) (0 :: uint8_t)
      = 0 # replicate (unat (px_buffer_size cfg) - unat (i + 1)) 0"
    using lt i1 by (simp add: Suc_diff_Suc flip: replicate_Suc)
  ultimately show ?case
    using step by simp
qed

lemma init_scaling_loop_run:
  assumes "3 dvd i" and "3 dvd unat (px_buffer_size cfg)"
    and "unat (px_buffer_size cfg) \<le> INT_MAX"
    and "unat (px_buffer_size cfg) \<le> length (rgb_map cfg)"
    and "\<forall>k < unat (px_buffer_size cfg). unat (rgb_map cfg ! k) < length buf"
  shows "\<exists>buf'. init_scaling_loop cfg i buf = Some buf' \<and> length buf' = length buf"
  using assms
proof (induction "unat (px_buffer_size cfg) - i" arbitrary: i buf rule: less_induct)
  case less
  show ?case
  proof (cases "i < unat (px_buffer_size cfg)")
    case False
    then show ?thesis
      by (subst init_scaling_loop.simps) simp
  next
    case True
    with less.prems(1,2) have next_le: "i + 3 \<le> unat (px_buffer_size cfg)"
      by (auto simp: dvd_def)
    let ?o1 = "unat (rgb_map cfg ! i)"
    let ?o2 = "unat (rgb_map cfg ! (i + 1))"
    let ?o3 = "unat (rgb_map cfg ! (i + 2))"
    let ?buf3 = "buf[?o1 := scaling_red cfg, ?o2 := scaling_green cfg, ?o3 := scaling_blue cfg]"
    have in_map: "i < length (rgb_map cfg)" "i + 1 < length (rgb_map cfg)"
        "i + 2 < length (rgb_map cfg)"
      using next_le less.prems(4) by simp_all
    have in_buf: "?o1 < length buf" "?o2 < length buf" "?o3 < length buf"
      using next_le less.prems(5) by simp_all
    have no_overflow: "\<not> INT_MAX < i + 3"
      using next_le less.prems(3) by simp
    have step: "init_scaling_loop cfg i buf = init_scaling_loop cfg (i + 3) ?buf3"
      using True in_map in_buf no_overflow
      by (subst init_scaling_loop.simps) (simp add: load_def store_def)
    have "\<exists>buf'. init_scaling_loop cfg (i + 3) ?buf3 = Some buf' \<and> length buf' = length ?buf3"
      using True less.prems by (intro less.hyps) simp_all
    with step show ?thesis
      by simp
  qed
qed

lemma register_writes_append [simp]:
  "register_writes (es @ es') = register_writes es @ register_writes es'"
  by (simp add: register_writes_def)

lemma register_writes_page_selection:
  "page_selection dev page sel \<Longrightarrow> register_writes sel = []"
  by (induction dev page sel rule: page_selection.induct)
    (auto simp: register_writes_def pswl_write_def ps_write_def)

lemma set_page_world:
  "\<exists>sel rc. is31fl3741_set_page dev page (w\<lparr>trace := t\<rparr>) = (rc, w\<lparr>trace := t @ sel\<rparr>)
      \<and> page_selection dev page sel"
  using set_page_run [of dev page "w\<lparr>trace := t\<rparr>"] by auto

lemma reg_write_world:
  "is31fl3741_reg_write dev addr v (w\<lparr>trace := t\<rparr>) =
     (errno_of (respond w t (register_write dev addr v)),
      w\<lparr>trace := t @ [(register_write dev addr v, respond w t (register_write dev addr v))]\<rparr>)"
  by (simp add: reg_write_run register_write_def)

lemma burst_write_world:
  assumes "unat num_bytes \<le> length buffer"
  shows "is31fl3741_reg_burst_write dev 0x00 buffer num_bytes (w\<lparr>trace := t\<rparr>) =
      Some (errno_of (respond w t (burst_write dev (take (unat num_bytes) buffer))),
            w\<lparr>trace := t @ [(burst_write dev (take (unat num_bytes) buffer),
                respond w t (burst_write dev (take (unat num_bytes) buffer)))]\<rparr>)"
  using burst_write_run [OF assms, of dev "w\<lparr>trace := t\<rparr>"] by simp

lemma hw_call_world:
  "hw_call op (w\<lparr>trace := t\<rparr>) = (respond w t op, w\<lparr>trace := t @ [(op, respond w t op)]\<rparr>)"
  by (simp add: hw_call_def Let_def)

lemma init_bound:
  assumes "bus (config dev) \<in> set (devices w)" and "sdb_port (config dev) \<in> set (devices w)"
  shows "is31fl3741_init dev w =
    (let cfg = config dev; dev = bound_device dev;
         (_, w1) = hw_call (Gpio_pin_configure (gpio (data dev)) (sdb_pin cfg)
                                   (GPIO_OUTPUT OR ucast (sdb_flags cfg))) w;
         (rc, w2) = hw_call (Gpio_pin_set (gpio (data dev)) (sdb_pin cfg) 1) w1
     in if rc \<noteq> 0 then Some (- EIO, dev, w2)
          else
            let (rc, w3) = is31fl3741_set_page dev IS31FL3741_PAGE_FUNCTION w2
            in if rc \<noteq> 0 then Some (- EIO, dev, w3)
            else
              let (_, w4) = is31fl3741_reg_write dev 0x3f 0xae w3;
                  (rc, w5) = is31fl3741_set_page dev IS31FL3741_PAGE_FUNCTION w4
              in if rc \<noteq> 0 then Some (- EIO, dev, w5)
              else
                let (_, w6) = is31fl3741_reg_write dev 0x00 (operation_mode cfg) w5;
                    (_, w7) = is31fl3741_reg_write dev 0x01 (gcc cfg) w6
                in do {
                  buf1 \<leftarrow> init_scaling_loop cfg 0 (px_buffer (data dev));
                  let (_, w8) = is31fl3741_set_page dev IS31FL3741_PAGE_SCALING_A w7;
                  (_, w9) \<leftarrow> is31fl3741_reg_burst_write dev 0x00 buf1 0xb4 w8;
                  let (_, w10) = is31fl3741_set_page dev IS31FL3741_PAGE_SCALING_B w9;
                  (_, w11) \<leftarrow> is31fl3741_reg_burst_write dev 0x00 (drop 0xb4 buf1) 0xab w10;
                  buf2 \<leftarrow> init_zero_loop cfg 0 buf1;
                  Some (0, dev\<lparr>data := (data dev)\<lparr>px_buffer := buf2\<rparr>\<rparr>, w11)
                })"
  using assms
  by (simp add: is31fl3741_init_def device_get_binding_def bound_device_def Let_def)


lemma bound_device_simps [simp]:
  "config (bound_device dev) = config dev"
  "i2c (data (bound_device dev)) = Some (bus (config dev))"
  "gpio (data (bound_device dev)) = Some (sdb_port (config dev))"
  "px_buffer (data (bound_device dev)) = px_buffer (data dev)"
  by (simp_all add: bound_device_def)

text \<open>
  C7. For a device as the instantiation macro builds it (capacity
  \<open>IS31FL3741_BUFFER_SIZE\<close>, a buffer of that size, the map's entries inside the buffer)
  whose two handles resolve, initialisation returns. Whenever it returns success, its
  register writes are, in this order: the reset write, the operating-mode write, the
  gain write, the scaling burst of \<open>0xB4\<close> bytes and the scaling burst of the remaining
  \<open>capacity - 0xB4\<close> bytes; and every byte of the device buffer is zero. When every
  call succeeds the call returns success and the trace is exactly the fifteen calls
  listed, each burst preceded by the selection of its scaling page.
\<close>

theorem init_success_path:
  assumes "px_buffer_size (config dev) = IS31FL3741_BUFFER_SIZE"
    and "length (px_buffer (data dev)) = unat IS31FL3741_BUFFER_SIZE"
    and "unat IS31FL3741_BUFFER_SIZE \<le> length (rgb_map (config dev))"
    and "\<forall>k < unat IS31FL3741_BUFFER_SIZE.
           unat (rgb_map (config dev) ! k) < unat IS31FL3741_BUFFER_SIZE"
    and "bus (config dev) \<in> set (devices w)"
    and "sdb_port (config dev) \<in> set (devices w)"
  shows "\<exists>rc dev' w' scaled. is31fl3741_init dev w = Some (rc, dev', w')
     \<and> length (take 0xb4 scaled) = 0xb4
     \<and> length (take 0xab (drop 0xb4 scaled)) = unat (px_buffer_size (config dev)) - 0xb4
     \<and> (rc = 0 \<longrightarrow>
          register_writes (drop (length (trace w)) (trace w')) =
            [register_write (bound_device dev) 0x3f 0xae,
             register_write (bound_device dev) 0x00 (operation_mode (config dev)),
             register_write (bound_device dev) 0x01 (gcc (config dev)),
             burst_write (bound_device dev) (take 0xb4 scaled),
             burst_write (bound_device dev) (take 0xab (drop 0xb4 scaled))]
          \<and> px_buffer (data dev') = replicate (unat (px_buffer_size (config dev))) 0)
     \<and> ((\<forall>h op. respond w h op = 0) \<longrightarrow>
          rc = 0
          \<and> trace w' = trace w @ map (\<lambda>op. (op, 0))
            [Gpio_pin_configure (Some (sdb_port (config dev))) (sdb_pin (config dev))
               (GPIO_OUTPUT OR ucast (sdb_flags (config dev))),
             Gpio_pin_set (Some (sdb_port (config dev))) (sdb_pin (config dev)) 1,
             pswl_write (bound_device dev),
             ps_write (bound_device dev) IS31FL3741_PAGE_FUNCTION,
             register_write (bound_device dev) 0x3f 0xae,
             pswl_write (bound_device dev),
             ps_write (bound_device dev) IS31FL3741_PAGE_FUNCTION,
             register_write (bound_device dev) 0x00 (operation_mode (config dev)),
             register_write (bound_device dev) 0x01 (gcc (config dev)),
             pswl_write (bound_device dev),
             ps_write (bound_device dev) IS31FL3741_PAGE_SCALING_A,
             burst_write (bound_device dev) (take 0xb4 scaled),
             pswl_write (bound_device dev),
             ps_write (bound_device dev) IS31FL3741_PAGE_SCALING_B,
             burst_write (bound_device dev) (take 0xab (drop 0xb4 scaled))])"
proof -
  let ?cfg = "config dev"
  let ?dev = "bound_device dev"
  have size: "unat (px_buffer_size ?cfg) = 351"
    by (simp add: assms(1) IS31FL3741_BUFFER_SIZE_def)
  have "\<exists>buf'. init_scaling_loop ?cfg 0 (px_buffer (data dev)) = Some buf'
      \<and> length buf' = length (px_buffer (data dev))"
    using assms(2,3,4) size
    by (intro init_scaling_loop_run) (simp_all add: assms(1) INT_MAX_def)
  then obtain scaled where
    scaled: "init_scaling_loop ?cfg 0 (px_buffer (data dev)) = Some scaled" "length scaled = 351"
    using assms(2) by (auto simp: IS31FL3741_BUFFER_SIZE_def)
  have zero: "init_zero_loop ?cfg 0 scaled = Some (replicate 351 0)"
    using init_zero_loop_run [of 0 ?cfg scaled] scaled(2) size by simp
  let ?burstA = "burst_write ?dev (take 0xb4 scaled)"
  let ?burstB = "burst_write ?dev (take 0xab (drop 0xb4 scaled))"
  let ?reset = "register_write ?dev 0x3f 0xae"
  let ?mode = "register_write ?dev 0x00 (operation_mode ?cfg)"
  let ?gain = "register_write ?dev 0x01 (gcc ?cfg)"
  let ?c1 = "Gpio_pin_configure (Some (sdb_port ?cfg)) (sdb_pin ?cfg)
               (GPIO_OUTPUT OR ucast (sdb_flags ?cfg))"
  let ?c2 = "Gpio_pin_set (Some (sdb_port ?cfg)) (sdb_pin ?cfg) 1"
  define a1 where "a1 = respond w (trace w) ?c1"
  define t1 where "t1 = trace w @ [(?c1, a1)]"
  define a2 where "a2 = respond w t1 ?c2"
  define t2 where "t2 = t1 @ [(?c2, a2)]"
  have call1: "hw_call ?c1 w = (a1, w\<lparr>trace := t1\<rparr>)"
    by (simp add: hw_call_def a1_def t1_def Let_def)
  have call2: "hw_call ?c2 (w\<lparr>trace := t1\<rparr>) = (a2, w\<lparr>trace := t2\<rparr>)"
    by (simp add: hw_call_world a2_def t2_def)
  obtain sel1 r1 where
    sel1: "is31fl3741_set_page ?dev IS31FL3741_PAGE_FUNCTION (w\<lparr>trace := t2\<rparr>)
             = (r1, w\<lparr>trace := t2 @ sel1\<rparr>)"
      "page_selection ?dev IS31FL3741_PAGE_FUNCTION sel1"
    using set_page_world by blast
  define a3 where "a3 = respond w (t2 @ sel1) ?reset"
  define t4 where "t4 = t2 @ sel1 @ [(?reset, a3)]"
  have write3: "is31fl3741_reg_write ?dev 0x3f 0xae (w\<lparr>trace := t2 @ sel1\<rparr>)
      = (errno_of a3, w\<lparr>trace := t4\<rparr>)"
    by (simp add: reg_write_world a3_def t4_def)
  obtain sel2 r2 where
    sel2: "is31fl3741_set_page ?dev IS31FL3741_PAGE_FUNCTION (w\<lparr>trace := t4\<rparr>)
             = (r2, w\<lparr>trace := t4 @ sel2\<rparr>)"
      "page_selection ?dev IS31FL3741_PAGE_FUNCTION sel2"
    using set_page_world by blast
  define a4 where "a4 = respond w (t4 @ sel2) ?mode"
  define t6 where "t6 = t4 @ sel2 @ [(?mode, a4)]"
  define a5 where "a5 = respond w t6 ?gain"
  define t7 where "t7 = t6 @ [(?gain, a5)]"
  have write4: "is31fl3741_reg_write ?dev 0x00 (operation_mode ?cfg) (w\<lparr>trace := t4 @ sel2\<rparr>)
      = (errno_of a4, w\<lparr>trace := t6\<rparr>)"
    by (simp add: reg_write_world a4_def t6_def)
  have write5: "is31fl3741_reg_write ?dev 0x01 (gcc ?cfg) (w\<lparr>trace := t6\<rparr>)
      = (errno_of a5, w\<lparr>trace := t7\<rparr>)"
    by (simp add: reg_write_world a5_def t7_def)
  obtain sel3 r3 where
    sel3: "is31fl3741_set_page ?dev IS31FL3741_PAGE_SCALING_A (w\<lparr>trace := t7\<rparr>)
             = (r3, w\<lparr>trace := t7 @ sel3\<rparr>)"
      "page_selection ?dev IS31FL3741_PAGE_SCALING_A sel3"
    using set_page_world by blast
  define a6 where "a6 = respond w (t7 @ sel3) ?burstA"
  define t9 where "t9 = t7 @ sel3 @ [(?burstA, a6)]"
  have burst6: "is31fl3741_reg_burst_write ?dev 0x00 scaled 0xb4 (w\<lparr>trace := t7 @ sel3\<rparr>)
      = Some (errno_of a6, w\<lparr>trace := t9\<rparr>)"
    using scaled(2) by (simp add: burst_write_world a6_def t9_def)
  obtain sel4 r4 where
    sel4: "is31fl3741_set_page ?dev IS31FL3741_PAGE_SCALING_B (w\<lparr>trace := t9\<rparr>)
             = (r4, w\<lparr>trace := t9 @ sel4\<rparr>)"
      "page_selection ?dev IS31FL3741_PAGE_SCALING_B sel4"
    using set_page_world by blast
  define a7 where "a7 = respond w (t9 @ sel4) ?burstB"
  define t11 where "t11 = t9 @ sel4 @ [(?burstB, a7)]"
  have burst7: "is31fl3741_reg_burst_write ?dev 0x00 (drop 0xb4 scaled) 0xab (w\<lparr>trace := t9 @ sel4\<rparr>)
      = Some (errno_of a7, w\<lparr>trace := t11\<rparr>)"
    using scaled(2) by (simp add: burst_write_world a7_def t11_def)
  let ?final = "?dev\<lparr>data := (data ?dev)\<lparr>px_buffer := replicate 351 0\<rparr>\<rparr>"
  have result: "is31fl3741_init dev w =
      (if a2 \<noteq> 0 then Some (- EIO, ?dev, w\<lparr>trace := t2\<rparr>)
       else if r1 \<noteq> 0 then Some (- EIO, ?dev, w\<lparr>trace := t2 @ sel1\<rparr>)
       else if r2 \<noteq> 0 then Some (- EIO, ?dev, w\<lparr>trace := t4 @ sel2\<rparr>)
       else Some (0, ?final, w\<lparr>trace := t11\<rparr>))"
    by (simp add: init_bound [OF assms(5,6)] call1 call2 sel1(1) write3 sel2(1) write4 write5
        scaled(1) sel3(1) burst6 sel4(1) burst7 zero Let_def)
  have writes: "register_writes (drop (length (trace w)) t11) = [?reset, ?mode, ?gain, ?burstA, ?burstB]"
    using register_writes_page_selection [OF sel1(2)] register_writes_page_selection [OF sel2(2)]
      register_writes_page_selection [OF sel3(2)] register_writes_page_selection [OF sel4(2)]
    by (simp add: t11_def t9_def t7_def t6_def t4_def t2_def t1_def)
      (simp add: register_writes_def register_write_def burst_write_def
        IS31FL3741_REG_PS_def IS31FL3741_REG_PSWL_def)
  have lens: "length (take 0xb4 scaled) = 0xb4"
      "length (take 0xab (drop 0xb4 scaled)) = unat (px_buffer_size ?cfg) - 0xb4"
    using scaled(2) size by simp_all
  have quiet: "a2 = 0 \<and> r1 = 0 \<and> r2 = 0
      \<and> t11 = trace w @ map (\<lambda>op. (op, 0))
            [?c1, ?c2, pswl_write ?dev, ps_write ?dev IS31FL3741_PAGE_FUNCTION, ?reset,
             pswl_write ?dev, ps_write ?dev IS31FL3741_PAGE_FUNCTION, ?mode, ?gain,
             pswl_write ?dev, ps_write ?dev IS31FL3741_PAGE_SCALING_A, ?burstA,
             pswl_write ?dev, ps_write ?dev IS31FL3741_PAGE_SCALING_B, ?burstB]"
    if all: "\<forall>h op. respond w h op = 0"
  proof -
    have sel: "rc = 0 \<and> sel = [(pswl_write ?dev, 0), (ps_write ?dev page, 0)]"
      if "is31fl3741_set_page ?dev page (w\<lparr>trace := t\<rparr>) = (rc, w\<lparr>trace := t @ sel\<rparr>)"
      for page t rc sel
    proof -
      have "is31fl3741_set_page ?dev page (w\<lparr>trace := t\<rparr>)
          = (0, w\<lparr>trace := t @ [(pswl_write ?dev, 0), (ps_write ?dev page, 0)]\<rparr>)"
        using all
        by (simp add: is31fl3741_set_page_def reg_write_run errno_of_def pswl_write_def
            ps_write_def)
      with that have "rc = 0"
        and "trace (w\<lparr>trace := t @ sel\<rparr>)
           = trace (w\<lparr>trace := t @ [(pswl_write ?dev, 0), (ps_write ?dev page, 0)]\<rparr>)"
        by simp_all
      then show ?thesis
        by simp
    qed
    from all have "a1 = 0" "a2 = 0" "a3 = 0" "a4 = 0" "a5 = 0" "a6 = 0" "a7 = 0"
      by (simp_all add: a1_def a2_def a3_def a4_def a5_def a6_def a7_def)
    with sel [OF sel1(1)] sel [OF sel2(1)] sel [OF sel3(1)] sel [OF sel4(1)] show ?thesis
      by (simp add: t11_def t9_def t7_def t6_def t4_def t2_def t1_def)
  qed
  show ?thesis
  proof (intro exI conjI impI)
    show "is31fl3741_init dev w = Some
        (if a2 \<noteq> 0 \<or> r1 \<noteq> 0 \<or> r2 \<noteq> 0 then - EIO else 0,
         if a2 \<noteq> 0 \<or> r1 \<noteq> 0 \<or> r2 \<noteq> 0 then ?dev else ?final,
         w\<lparr>trace := if a2 \<noteq> 0 then t2 else if r1 \<noteq> 0 then t2 @ sel1
                      else if r2 \<noteq> 0 then t4 @ sel2 else t11\<rparr>)"
      by (simp add: result)
    show "length (take 0xb4 scaled) = 0xb4"
      by (fact lens(1))
    show "length (take 0xab (drop 0xb4 scaled)) = unat (px_buffer_size ?cfg) - 0xb4"
      by (fact lens(2))
  next
    assume "(if a2 \<noteq> 0 \<or> r1 \<noteq> 0 \<or> r2 \<noteq> 0 then - EIO else 0) = 0"
    then have ok: "a2 = 0" "r1 = 0" "r2 = 0"
      by (simp_all add: EIO_def split: if_splits)
    with writes show "register_writes (drop (length (trace w))
          (trace (w\<lparr>trace := if a2 \<noteq> 0 then t2 else if r1 \<noteq> 0 then t2 @ sel1
                      else if r2 \<noteq> 0 then t4 @ sel2 else t11\<rparr>)))
        = [?reset, ?mode, ?gain, ?burstA, ?burstB]"
      by simp
    from ok size show "px_buffer (data (if a2 \<noteq> 0 \<or> r1 \<noteq> 0 \<or> r2 \<noteq> 0 then ?dev else ?final))
        = replicate (unat (px_buffer_size ?cfg)) 0"
      by simp
  next
    assume all: "\<forall>h op. respond w h op = 0"
    from quiet [OF all] show "(if a2 \<noteq> 0 \<or> r1 \<noteq> 0 \<or> r2 \<noteq> 0 then - EIO else 0) = 0"
      by simp
    from quiet [OF all] show "trace (w\<lparr>trace := if a2 \<noteq> 0 then t2 else if r1 \<noteq> 0 then t2 @ sel1
                      else if r2 \<noteq> 0 then t4 @ sel2 else t11\<rparr>)
        = trace w @ map (\<lambda>op. (op, 0))
            [?c1, ?c2, pswl_write ?dev, ps_write ?dev IS31FL3741_PAGE_FUNCTION, ?reset,
             pswl_write ?dev, ps_write ?dev IS31FL3741_PAGE_FUNCTION, ?mode, ?gain,
             pswl_write ?dev, ps_write ?dev IS31FL3741_PAGE_SCALING_A, ?burstA,
             pswl_write ?dev, ps_write ?dev IS31FL3741_PAGE_SCALING_B, ?burstB]"
      by simp
  qed
qed

lemma example_map_in_range:
  "\<forall>k < unat IS31FL3741_BUFFER_SIZE.
     unat (rgb_map example_config ! k) < unat IS31FL3741_BUFFER_SIZE"
  by (simp add: example_config_def IS31FL3741_BUFFER_SIZE_def unat_of_nat)

lemma fresh_device_simps:
  "config fresh_device = example_config"
  "px_buffer (data fresh_device) = replicate 351 0"
  "bound_device fresh_device = example_device"
  "config example_device = example_config"
  "px_buffer (data example_device) = replicate 351 0"
  "px_buffer_size example_config = IS31FL3741_BUFFER_SIZE"
  "bus example_config \<in> set (devices (scripted_world rcs))"
  "sdb_port example_config \<in> set (devices (scripted_world rcs))"
  "length (rgb_map example_config) = 351"
  by (simp_all add: fresh_device_def example_device_def bound_device_def example_config_def
      scripted_world_def)

lemma example_scaling:
  "\<exists>scaled. init_scaling_loop example_config 0 (replicate 351 0) = Some scaled
      \<and> length scaled = 351"
proof -
  have "\<exists>buf'. init_scaling_loop example_config 0 (replicate 351 0) = Some buf'
      \<and> length buf' = length (replicate 351 (0 :: uint8_t))"
    using example_map_in_range
    by (intro init_scaling_loop_run)
      (simp_all add: fresh_device_simps IS31FL3741_BUFFER_SIZE_def INT_MAX_def)
  then show ?thesis
    by simp
qed

theorem init_success_path_witness:
  "px_buffer_size (config fresh_device) = IS31FL3741_BUFFER_SIZE
   \<and> length (px_buffer (data fresh_device)) = unat IS31FL3741_BUFFER_SIZE
   \<and> unat IS31FL3741_BUFFER_SIZE \<le> length (rgb_map (config fresh_device))
   \<and> list_all (\<lambda>x. unat x < unat IS31FL3741_BUFFER_SIZE) (rgb_map (config fresh_device))
   \<and> bus (config fresh_device) \<in> set (devices (scripted_world []))
   \<and> sdb_port (config fresh_device) \<in> set (devices (scripted_world []))
   \<and> (\<exists>dev' w' scaled. is31fl3741_init fresh_device (scripted_world []) = Some (0, dev', w')
        \<and> px_buffer (data dev') = replicate 351 0
        \<and> register_writes (trace w') =
            [register_write example_device 0x3f 0xae,
             register_write example_device 0x00 (operation_mode example_config),
             register_write example_device 0x01 3,
             burst_write example_device (take 0xb4 scaled),
             burst_write example_device (take 0xab (drop 0xb4 scaled))]
        \<and> length (trace w') = 15)"
proof -
  have h1: "px_buffer_size (config fresh_device) = IS31FL3741_BUFFER_SIZE"
    by (simp add: fresh_device_simps)
  have h2: "length (px_buffer (data fresh_device)) = unat IS31FL3741_BUFFER_SIZE"
    by (simp add: fresh_device_simps IS31FL3741_BUFFER_SIZE_def)
  have h3: "unat IS31FL3741_BUFFER_SIZE \<le> length (rgb_map (config fresh_device))"
    by (simp add: fresh_device_simps IS31FL3741_BUFFER_SIZE_def)
  have h4: "\<forall>k < unat IS31FL3741_BUFFER_SIZE.
         unat (rgb_map (config fresh_device) ! k) < unat IS31FL3741_BUFFER_SIZE"
    using example_map_in_range by (simp add: fresh_device_simps)
  have h5: "bus (config fresh_device) \<in> set (devices (scripted_world []))"
    by (simp add: fresh_device_simps)
  have h6: "sdb_port (config fresh_device) \<in> set (devices (scripted_world []))"
    by (simp add: fresh_device_simps)
  have quiet: "\<forall>h op. respond (scripted_world []) h op = 0"
    by (simp add: scripted_world_def)
  have gain: "gcc example_config = 3"
    by (simp add: example_config_def gcc_initializer_def IS31FL3741_GCC_def
        signed_divide_int_def)
  from init_success_path [OF h1 h2 h3 h4 h5 h6] quiet gain
  have "\<exists>dev' w' scaled. is31fl3741_init fresh_device (scripted_world []) = Some (0, dev', w')
        \<and> px_buffer (data dev') = replicate 351 0
        \<and> register_writes (trace w') =
            [register_write example_device 0x3f 0xae,
             register_write example_device 0x00 (operation_mode example_config),
             register_write example_device 0x01 3,
             burst_write example_device (take 0xb4 scaled),
             burst_write example_device (take 0xab (drop 0xb4 scaled))]
        \<and> length (trace w') = 15"
    by (simp add: fresh_device_simps IS31FL3741_BUFFER_SIZE_def scripted_world_def) force
  moreover have "list_all (\<lambda>x. unat x < unat IS31FL3741_BUFFER_SIZE)
      (rgb_map (config fresh_device))"
    by (simp add: fresh_device_def example_config_def list_all_iff unat_of_nat
        IS31FL3741_BUFFER_SIZE_def)
  ultimately show ?thesis
    using h1 h2 h3 h5 h6 by (intro conjI)
qed

text \<open>
  C5. Initialisation does not abort on every failing step: the results of the reset
  write, the operating-mode write, the gain write, the scaling page selections and the
  scaling burst writes are dropped. In each of these five runs exactly one call fails
  (the reset write, the operating-mode write, the gain write, the unlock write of the
  first scaling page selection, the first scaling burst write); the remaining calls are
  still made and initialisation returns 0.
\<close>

theorem init_ignores_write_errors:
  "init_outcome fresh_device (scripted_world [0, 0, 0, 0, - 5])
     = Some (0, [0, 0, 0, 0, - 5, 0, 0, 0, 0, 0, 0, 0, 0, 0, 0])
   \<and> init_outcome fresh_device (scripted_world [0, 0, 0, 0, 0, 0, 0, - 5])
     = Some (0, [0, 0, 0, 0, 0, 0, 0, - 5, 0, 0, 0, 0, 0, 0, 0])
   \<and> init_outcome fresh_device (scripted_world [0, 0, 0, 0, 0, 0, 0, 0, - 5])
     = Some (0, [0, 0, 0, 0, 0, 0, 0, 0, - 5, 0, 0, 0, 0, 0, 0])
   \<and> init_outcome fresh_device (scripted_world [0, 0, 0, 0, 0, 0, 0, 0, 0, - 5])
     = Some (0, [0, 0, 0, 0, 0, 0, 0, 0, 0, - 5, 0, 0, 0, 0])
   \<and> init_outcome fresh_device (scripted_world [0, 0, 0, 0, 0, 0, 0, 0, 0, 0, 0, - 5])
     = Some (0, [0, 0, 0, 0, 0, 0, 0, 0, 0, 0, 0, - 5, 0, 0, 0])"
proof -
  obtain scaled where
    scaled: "init_scaling_loop example_config 0 (replicate 351 0) = Some scaled"
      "length scaled = 351"
    using example_scaling by blast
  have zero: "init_zero_loop example_config 0 scaled = Some (replicate 351 0)"
    using init_zero_loop_run [of 0 example_config scaled] scaled(2)
    by (simp add: fresh_device_simps IS31FL3741_BUFFER_SIZE_def)
  show ?thesis
    using scaled(2)
    by (simp add: init_outcome_def init_bound fresh_device_simps)
      (simp add: fresh_device_simps scaled(1) zero
        is31fl3741_set_page_def is31fl3741_reg_write_def is31fl3741_reg_burst_write_def
        hw_call_def scripted_world_def Let_def EIO_def)
qed

theorem init_ignores_write_errors_witness:
  "init_outcome fresh_device (scripted_world [0, 0, 0, 0, - 5])
     = Some (0, [0, 0, 0, 0, - 5, 0, 0, 0, 0, 0, 0, 0, 0, 0, 0])"
  by (rule init_ignores_write_errors [THEN conjunct1])


end
